(* ===== verification/Py_Prelude.thy ===== *)
theory Py_Prelude
  imports Main
begin

text \<open>
  Shared vocabulary of the development: names and addresses, the result type
  \<open>'e + 'a\<close> with its bind, and Python's insertion-ordered dictionaries as
  association lists.  Python's \<^verbatim>\<open>dict\<close> keeps its keys in insertion order
  and assigning to a key that is already present keeps its position; \<open>al_set\<close>
  below is that assignment, and \<open>al_update\<close> is \<^verbatim>\<open>dict.update\<close>.
  The lemmas are the generic facts the component theories share; the rewrite
  rules for results are collected in \<open>res_simps\<close>, those for dictionaries
  are simp rules.
\<close>

named_theorems res_simps "rewrite rules for results of type error + value"

type_synonym name = string
type_synonym addr = nat

subsection \<open>Results: an exception or a value\<close>

definition bind_res :: "'e + 'a \<Rightarrow> ('a \<Rightarrow> 'e + 'b) \<Rightarrow> 'e + 'b" where
  "bind_res r f = (case r of Inl e \<Rightarrow> Inl e | Inr x \<Rightarrow> f x)"

subsection \<open>Insertion-ordered dictionaries\<close>

fun al_set :: "'k \<Rightarrow> 'v \<Rightarrow> ('k \<times> 'v) list \<Rightarrow> ('k \<times> 'v) list" where
  "al_set k v [] = [(k, v)]"
| "al_set k v ((k', v') # xs) =
     (if k' = k then (k, v) # xs else (k', v') # al_set k v xs)"

definition al_update :: "('k \<times> 'v) list \<Rightarrow> ('k \<times> 'v) list \<Rightarrow> ('k \<times> 'v) list" where
  "al_update d items = foldl (\<lambda>acc (k, v). al_set k v acc) d items"

definition al_keys :: "('k \<times> 'v) list \<Rightarrow> 'k list" where
  "al_keys d = map fst d"

subsection \<open>Lemmas on results\<close>

lemma bind_res_Inl [simp, res_simps]: "bind_res (Inl e) f = Inl e"
  by (simp add: bind_res_def)

lemma bind_res_Inr [simp, res_simps]: "bind_res (Inr x) f = f x"
  by (simp add: bind_res_def)

lemma bind_res_eq_Inr [res_simps]:
  "bind_res r f = Inr y \<longleftrightarrow> (\<exists>x. r = Inr x \<and> f x = Inr y)"
  by (cases r) auto

lemma bind_res_eq_Inl:
  "bind_res r f = Inl e \<longleftrightarrow> r = Inl e \<or> (\<exists>x. r = Inr x \<and> f x = Inl e)"
  by (cases r) auto

lemma bind_res_assoc:
  "bind_res (bind_res r f) g = bind_res r (\<lambda>x. bind_res (f x) g)"
  by (cases r) auto

subsection \<open>Lemmas on dictionaries\<close>

lemma al_keys_Nil [simp]: "al_keys [] = []"
  by (simp add: al_keys_def)

lemma al_keys_Cons [simp]: "al_keys ((k, v) # xs) = k # al_keys xs"
  by (simp add: al_keys_def)

lemma map_of_al_set [simp]: "map_of (al_set k v xs) = (map_of xs)(k \<mapsto> v)"
  by (induction xs) (auto simp: fun_eq_iff)

lemma al_keys_al_set:
  "al_keys (al_set k v xs) = (if k \<in> set (al_keys xs) then al_keys xs else al_keys xs @ [k])"
  by (induction xs) (auto simp: al_keys_def rev_image_eqI)

lemma set_al_keys_al_set [simp]:
  "set (al_keys (al_set k v xs)) = insert k (set (al_keys xs))"
  by (auto simp: al_keys_al_set)

lemma distinct_al_keys_al_set [simp]:
  "distinct (al_keys xs) \<Longrightarrow> distinct (al_keys (al_set k v xs))"
  by (simp add: al_keys_al_set)

lemma in_set_al_set:
  "p \<in> set (al_set k v xs) \<Longrightarrow> p = (k, v) \<or> p \<in> set xs"
  by (induction xs) (auto split: if_splits)

lemma al_set_present: "map_of xs k = Some v \<Longrightarrow> al_set k v xs = xs"
  by (induction xs) (auto split: if_splits)

lemma al_update_Nil [simp]: "al_update d [] = d"
  by (simp add: al_update_def)

lemma al_update_Cons [simp]:
  "al_update d ((k, v) # items) = al_update (al_set k v d) items"
  by (simp add: al_update_def)

lemma distinct_al_keys_al_update:
  "distinct (al_keys d) \<Longrightarrow> distinct (al_keys (al_update d items))"
  by (induction items arbitrary: d) auto

lemma set_al_keys_al_update:
  "set (al_keys (al_update d items)) = set (al_keys d) \<union> fst ` set items"
  by (induction items arbitrary: d) (auto simp: rev_image_eqI)

lemma map_of_al_update:
  "map_of (al_update d items) = map_of d ++ map_of (rev items)"
  by (induction items arbitrary: d) (auto simp: map_add_def fun_eq_iff split: option.splits)

end
