(* ===== verification/Py_Objects.thy ===== *)
theory Py_Objects
  imports Py_Prelude
begin

text \<open>
  The part of Python's object model that the extension's \<^verbatim>\<open>__init__.py\<close>
  touches: the values a module-level name can hold (\<^verbatim>\<open>None\<close>, a
  \<^verbatim>\<open>str\<close>, a class object such as the builtin \<^verbatim>\<open>dict\<close>, or a reference
  to a heap object), the two mutable heap objects it creates (\<^verbatim>\<open>dict\<close> and
  \<^verbatim>\<open>list\<close>), the exceptions its statements can raise, and the interpreter
  state: the module namespace (itself an insertion-ordered dict) and the heap.
  The heap is a list indexed by address; allocation appends, and objects are
  never freed (garbage collection changes no binding and is not modelled).
  \<open>setitem\<close> is CPython's \<^verbatim>\<open>STORE_SUBSCR\<close> for these objects.
  \<open>state_ok\<close> is the heap invariant: every reference points into the heap,
  and every dict (the namespace included) has distinct, hashable keys.
\<close>

datatype pyclass = NoneType | StrType | TypeType | DictType | ListType

datatype pyval = VNone | VStr string | VClass pyclass | VRef addr

datatype obj = ODict "(pyval \<times> pyval) list" | OList "pyval list"

datatype type_error =
    Unhashable pyclass
  | NoItemAssignment pyclass
  | ListIndexNotInt pyclass
  | AllItemNotStr pyclass
  | NotSequence pyclass
  | NotPathLike pyclass

datatype pyerror =
    NameError name
  | AttributeError name
  | TypeError type_error
  | DanglingRef addr

record pystate =
  ns :: "(name \<times> pyval) list"
  heap :: "obj list"

subsection \<open>Heap access\<close>

definition deref :: "pystate \<Rightarrow> addr \<Rightarrow> pyerror + obj" where
  "deref st a = (if a < length (heap st) then Inr (heap st ! a) else Inl (DanglingRef a))"

definition alloc :: "obj \<Rightarrow> pystate \<Rightarrow> addr \<times> pystate" where
  "alloc ob st = (length (heap st), st\<lparr>heap := heap st @ [ob]\<rparr>)"

fun type_of :: "pystate \<Rightarrow> pyval \<Rightarrow> pyerror + pyclass" where
  "type_of st VNone = Inr NoneType"
| "type_of st (VStr s) = Inr StrType"
| "type_of st (VClass c) = Inr TypeType"
| "type_of st (VRef a) =
     bind_res (deref st a) (\<lambda>ob. case ob of ODict _ \<Rightarrow> Inr DictType | OList _ \<Rightarrow> Inr ListType)"

definition isinstance :: "pystate \<Rightarrow> pyval \<Rightarrow> pyval \<Rightarrow> bool" where
  "isinstance st v cls = (case cls of VClass c \<Rightarrow> type_of st v = Inr c | _ \<Rightarrow> False)"

text \<open>\<^verbatim>\<open>dict\<close> and \<^verbatim>\<open>list\<close> set \<^verbatim>\<open>__hash__ = None\<close>; every other value here is hashable.\<close>

fun hashable :: "pyval \<Rightarrow> bool" where
  "hashable (VRef a) = False"
| "hashable _ = True"

text \<open>\<^verbatim>\<open>c[k] = v\<close>: a dict stores the pair (a present key keeps its position),
  a list refuses a \<^verbatim>\<open>str\<close>/\<^verbatim>\<open>None\<close>/class index, anything else refuses item assignment.\<close>

definition setitem :: "pyval \<Rightarrow> pyval \<Rightarrow> pyval \<Rightarrow> pystate \<Rightarrow> pyerror + pystate" where
  "setitem c k v st =
     (case c of
        VRef a \<Rightarrow>
          bind_res (deref st a) (\<lambda>ob. case ob of
              ODict d \<Rightarrow>
                if hashable k then Inr (st\<lparr>heap := (heap st)[a := ODict (al_set k v d)]\<rparr>)
                else bind_res (type_of st k) (\<lambda>t. Inl (TypeError (Unhashable t)))
            | OList _ \<Rightarrow> bind_res (type_of st k) (\<lambda>t. Inl (TypeError (ListIndexNotInt t))))
      | _ \<Rightarrow> bind_res (type_of st c) (\<lambda>t. Inl (TypeError (NoItemAssignment t))))"

text \<open>\<^verbatim>\<open>STORE_NAME\<close> into the module namespace.\<close>

definition store_name :: "name \<Rightarrow> pyval \<Rightarrow> pystate \<Rightarrow> pystate" where
  "store_name x v st = st\<lparr>ns := al_set x v (ns st)\<rparr>"

subsection \<open>The heap invariant\<close>

definition val_ok :: "nat \<Rightarrow> pyval \<Rightarrow> bool" where
  "val_ok n v = (case v of VRef a \<Rightarrow> a < n | _ \<Rightarrow> True)"

fun obj_ok :: "nat \<Rightarrow> obj \<Rightarrow> bool" where
  "obj_ok n (ODict d) =
     (distinct (al_keys d) \<and> list_all (\<lambda>(k, v). hashable k \<and> val_ok n v) d)"
| "obj_ok n (OList xs) = list_all (val_ok n) xs"

definition state_ok :: "pystate \<Rightarrow> bool" where
  "state_ok st =
     (distinct (al_keys (ns st)) \<and>
      list_all (\<lambda>(x, v). val_ok (length (heap st)) v) (ns st) \<and>
      list_all (obj_ok (length (heap st))) (heap st))"

text \<open>Heap extension (after Jinja's \<open>hext\<close>): the heap only grows, and every
  object keeps its kind, so the type of every existing value is kept.\<close>

fun same_kind :: "obj \<Rightarrow> obj \<Rightarrow> bool" where
  "same_kind (ODict _) (ODict _) = True"
| "same_kind (OList _) (OList _) = True"
| "same_kind _ _ = False"

definition hext :: "pystate \<Rightarrow> pystate \<Rightarrow> bool" where
  "hext st st' =
     (length (heap st) \<le> length (heap st') \<and>
      (\<forall>a < length (heap st). same_kind (heap st ! a) (heap st' ! a)))"

subsection \<open>Lemmas\<close>

lemma val_ok_mono: "val_ok n v \<Longrightarrow> n \<le> m \<Longrightarrow> val_ok m v"
  by (auto simp: val_ok_def split: pyval.splits)

lemma val_ok_simps [simp]:
  "val_ok n VNone" "val_ok n (VStr s)" "val_ok n (VClass c)" "val_ok n (VRef a) = (a < n)"
  by (simp_all add: val_ok_def)

lemma hashable_val_ok: "hashable k \<Longrightarrow> val_ok n k"
  by (cases k) auto

lemma obj_ok_mono: "obj_ok n ob \<Longrightarrow> n \<le> m \<Longrightarrow> obj_ok m ob"
  by (cases ob) (auto simp: list_all_iff val_ok_def split: pyval.splits)

lemma obj_ok_Suc: "obj_ok n ob \<Longrightarrow> obj_ok (Suc n) ob"
  by (erule obj_ok_mono) simp

lemma deref_Inr [simp]: "a < length (heap st) \<Longrightarrow> deref st a = Inr (heap st ! a)"
  by (simp add: deref_def)

lemma deref_eq_Inr: "deref st a = Inr ob \<longleftrightarrow> a < length (heap st) \<and> ob = heap st ! a"
  by (auto simp: deref_def)

lemma ns_alloc [simp]: "ns (snd (alloc ob st)) = ns st"
  by (simp add: alloc_def)

lemma heap_alloc [simp]: "heap (snd (alloc ob st)) = heap st @ [ob]"
  by (simp add: alloc_def)

lemma fst_alloc [simp]: "fst (alloc ob st) = length (heap st)"
  by (simp add: alloc_def)

lemma state_ok_alloc:
  "state_ok st \<Longrightarrow> obj_ok (length (heap st)) ob \<Longrightarrow> state_ok (snd (alloc ob st))"
  by (auto simp: state_ok_def list_all_iff val_ok_def obj_ok_Suc split: pyval.splits)

lemma state_ok_snoc:
  "state_ok st \<Longrightarrow> obj_ok (length (heap st)) ob \<Longrightarrow> state_ok (st\<lparr>heap := heap st @ [ob]\<rparr>)"
  using state_ok_alloc [of st ob] by (simp add: alloc_def)

lemma state_ok_store_name:
  "state_ok st \<Longrightarrow> val_ok (length (heap st)) v \<Longrightarrow> state_ok (store_name x v st)"
  by (auto simp: state_ok_def store_name_def list_all_iff dest: in_set_al_set)

lemma obj_ok_al_set:
  "obj_ok n (ODict d) \<Longrightarrow> hashable k \<Longrightarrow> val_ok n v \<Longrightarrow> obj_ok n (ODict (al_set k v d))"
  by (auto simp: list_all_iff dest: in_set_al_set)

lemma setitem_Inr:
  "setitem c k v st = Inr st' \<longleftrightarrow>
     (\<exists>a d. c = VRef a \<and> a < length (heap st) \<and> heap st ! a = ODict d \<and> hashable k \<and>
            st' = st\<lparr>heap := (heap st)[a := ODict (al_set k v d)]\<rparr>)"
  by (auto simp: setitem_def deref_eq_Inr res_simps
           split: pyval.splits obj.splits if_splits)

lemma list_all_update: "list_all P xs \<Longrightarrow> P x \<Longrightarrow> list_all P (xs[i := x])"
  by (auto simp: list_all_iff dest: set_update_subset_insert [THEN subsetD])

lemma state_ok_heap_nth:
  "state_ok st \<Longrightarrow> a < length (heap st) \<Longrightarrow> obj_ok (length (heap st)) (heap st ! a)"
  by (simp add: state_ok_def list_all_length)

lemma state_ok_setitem:
  assumes "state_ok st" and "val_ok (length (heap st)) v" and "setitem c k v st = Inr st'"
  shows "state_ok st'"
proof -
  from assms(3) obtain a d where a: "a < length (heap st)" "heap st ! a = ODict d" "hashable k"
    and st': "st' = st\<lparr>heap := (heap st)[a := ODict (al_set k v d)]\<rparr>"
    using assms(3) unfolding setitem_Inr by blast
  from state_ok_heap_nth [OF assms(1) a(1)] a(2) have "obj_ok (length (heap st)) (ODict d)"
    by simp
  then have "obj_ok (length (heap st)) (ODict (al_set k v d))"
    by (rule obj_ok_al_set [OF _ a(3) assms(2)])
  with assms(1) have "list_all (obj_ok (length (heap st))) ((heap st)[a := ODict (al_set k v d)])"
    by (simp add: state_ok_def list_all_update)
  with assms(1) st' show ?thesis
    by (simp add: state_ok_def)
qed

lemma setitem_frame:
  "setitem (VRef a) k v st = Inr st' \<Longrightarrow> b \<noteq> a \<Longrightarrow> heap st' ! b = heap st ! b"
  by (auto simp: setitem_Inr)

lemma setitem_ns [simp]: "setitem c k v st = Inr st' \<Longrightarrow> ns st' = ns st"
  by (auto simp: setitem_Inr)

lemma same_kind_refl [simp]: "same_kind ob ob"
  by (cases ob) auto

lemma hext_refl [simp]: "hext st st"
  by (simp add: hext_def)

lemma same_kind_trans: "same_kind x y \<Longrightarrow> same_kind y z \<Longrightarrow> same_kind x z"
  by (cases x; cases y; cases z) auto

lemma hext_trans:
  assumes "hext st1 st2" and "hext st2 st3"
  shows "hext st1 st3"
  unfolding hext_def
proof (intro conjI allI impI)
  from assms show "length (heap st1) \<le> length (heap st3)"
    by (simp add: hext_def)
next
  fix a
  assume "a < length (heap st1)"
  with assms have "same_kind (heap st1 ! a) (heap st2 ! a)"
    and "same_kind (heap st2 ! a) (heap st3 ! a)"
    by (auto simp: hext_def)
  then show "same_kind (heap st1 ! a) (heap st3 ! a)"
    by (rule same_kind_trans)
qed

lemma hext_alloc: "hext st (snd (alloc ob st))"
  by (simp add: hext_def nth_append)

lemma hext_snoc: "hext st (st\<lparr>heap := heap st @ [ob]\<rparr>)"
  using hext_alloc [of st ob] by (simp add: alloc_def)

lemma hext_length: "hext st st' \<Longrightarrow> length (heap st) \<le> length (heap st')"
  by (simp add: hext_def)

lemma val_ok_hext: "val_ok (length (heap st)) v \<Longrightarrow> hext st st' \<Longrightarrow> val_ok (length (heap st')) v"
  by (erule val_ok_mono) (rule hext_length)

lemma hext_setitem:
  assumes "setitem c k v st = Inr st'"
  shows "hext st st'"
proof -
  from assms obtain a d where a: "a < length (heap st)" "heap st ! a = ODict d"
    and st': "st' = st\<lparr>heap := (heap st)[a := ODict (al_set k v d)]\<rparr>"
    using assms unfolding setitem_Inr by blast
  have "same_kind (heap st ! b) ((heap st)[a := ODict (al_set k v d)] ! b)" for b
    using a by (cases "a = b") (simp_all add: nth_list_update)
  then show ?thesis
    unfolding st' hext_def by simp
qed

lemma hext_store_name: "hext st (store_name x v st)"
  by (simp add: hext_def store_name_def)

lemma type_of_hext: "hext st st' \<Longrightarrow> type_of st v = Inr c \<Longrightarrow> type_of st' v = Inr c"
proof (cases v)
  case (VRef a)
  assume h: "hext st st'" and t: "type_of st v = Inr c"
  with VRef have a: "a < length (heap st)" by (auto simp: deref_def split: if_splits)
  with h have "same_kind (heap st ! a) (heap st' ! a)" and "a < length (heap st')"
    by (auto simp: hext_def)
  with t VRef a show ?thesis
    by (cases "heap st ! a"; cases "heap st' ! a") auto
qed auto

lemma isinstance_hext: "hext st st' \<Longrightarrow> isinstance st v cls \<Longrightarrow> isinstance st' v cls"
  by (auto simp: isinstance_def type_of_hext split: pyval.splits)

lemma type_of_DictType:
  "type_of st v = Inr DictType \<longleftrightarrow>
     (\<exists>a d. v = VRef a \<and> a < length (heap st) \<and> heap st ! a = ODict d)"
  by (cases v) (auto simp: deref_def res_simps split: obj.splits)

end
