(* ===== verification/Py_Exec.thy ===== *)
theory Py_Exec
  imports Py_Objects
begin

text \<open>
  Execution of a Python module body, for the statement forms the extension's
  \<^verbatim>\<open>__init__.py\<close> uses: an expression statement (its docstring), a
  plain assignment to a name, and an annotated assignment to a name
  (\<^verbatim>\<open>x: T = v\<close>).  The semantics is CPython's (3.8 to 3.13):
  \<^item> \<open>load_name\<close> is \<^verbatim>\<open>LOAD_NAME\<close> at module level: the module
    namespace first, then the builtins, else \<^verbatim>\<open>NameError\<close>;
  \<^item> a dict display evaluates key then value, left to right, and inserts the
    pairs in order (\<^verbatim>\<open>BUILD_MAP\<close>); a list display evaluates its items
    left to right; both allocate a fresh object;
  \<^item> \<^verbatim>\<open>x: T = v\<close> evaluates \<open>v\<close>, binds \<open>x\<close>, then evaluates \<open>T\<close> and stores
    it as \<^verbatim>\<open>__annotations__[x]\<close> (\<^verbatim>\<open>compiler_annassign\<close>);
  \<^item> \<open>exec_module\<close> is \<^verbatim>\<open>compiler_body\<close>: a body with an annotated
    assignment starts with \<^verbatim>\<open>SETUP_ANNOTATIONS\<close> (create
    \<^verbatim>\<open>__annotations__ = {}\<close> unless the name is already bound), then a
    leading string constant is stored as \<^verbatim>\<open>__doc__\<close> unless the
    interpreter runs with \<^verbatim>\<open>-OO\<close> (optimisation level 2), then the
    statements run in order and the first exception ends the run;
  \<^item> \<open>import_module\<close> runs a body in a fresh module namespace
    (\<^verbatim>\<open>__name__\<close>, \<^verbatim>\<open>__doc__ = None\<close>, \<^verbatim>\<open>__package__\<close>,
    \<^verbatim>\<open>__file__\<close>) over the interpreter's existing heap; re-executing the
    body over the module's current state is \<^verbatim>\<open>importlib.reload\<close>.
  The lemmas show that evaluation and execution keep \<open>state_ok\<close> and only
  extend the heap (\<open>hext\<close>), and that a statement list runs as its parts.
\<close>

datatype expr =
    Str string
  | NoneLit
  | Name name
  | DictDisplay "(expr \<times> expr) list"
  | ListDisplay "expr list"

datatype stmt =
    ExprStmt expr
  | Assign name expr
  | AnnAssign name expr expr

definition builtins :: "(name \<times> pyval) list" where
  "builtins =
     [(''dict'', VClass DictType), (''list'', VClass ListType),
      (''str'', VClass StrType), (''type'', VClass TypeType)]"

definition load_name :: "name \<Rightarrow> pystate \<Rightarrow> pyerror + pyval" where
  "load_name x st =
     (case map_of (ns st) x of
        Some v \<Rightarrow> Inr v
      | None \<Rightarrow> (case map_of builtins x of Some v \<Rightarrow> Inr v | None \<Rightarrow> Inl (NameError x)))"

fun build_dict :: "(pyval \<times> pyval) list \<Rightarrow> (pyval \<times> pyval) list \<Rightarrow> pystate \<Rightarrow>
    pyerror + (pyval \<times> pyval) list" where
  "build_dict d [] st = Inr d"
| "build_dict d ((k, v) # kvs) st =
     (if hashable k then build_dict (al_set k v d) kvs st
      else bind_res (type_of st k) (\<lambda>t. Inl (TypeError (Unhashable t))))"

function (sequential) eval_expr :: "expr \<Rightarrow> pystate \<Rightarrow> pyerror + (pyval \<times> pystate)"
and eval_exprs :: "expr list \<Rightarrow> pystate \<Rightarrow> pyerror + (pyval list \<times> pystate)"
and eval_items :: "(expr \<times> expr) list \<Rightarrow> pystate \<Rightarrow> pyerror + ((pyval \<times> pyval) list \<times> pystate)"
where
  "eval_expr (Str s) st = Inr (VStr s, st)"
| "eval_expr NoneLit st = Inr (VNone, st)"
| "eval_expr (Name x) st = bind_res (load_name x st) (\<lambda>v. Inr (v, st))"
| "eval_expr (DictDisplay items) st =
     bind_res (eval_items items st) (\<lambda>(kvs, st1).
     bind_res (build_dict [] kvs st1) (\<lambda>d.
     let (a, st2) = alloc (ODict d) st1 in Inr (VRef a, st2)))"
| "eval_expr (ListDisplay es) st =
     bind_res (eval_exprs es st) (\<lambda>(vs, st1).
     let (a, st2) = alloc (OList vs) st1 in Inr (VRef a, st2))"
| "eval_exprs [] st = Inr ([], st)"
| "eval_exprs (e # es) st =
     bind_res (eval_expr e st) (\<lambda>(v, st1).
     bind_res (eval_exprs es st1) (\<lambda>(vs, st2). Inr (v # vs, st2)))"
| "eval_items [] st = Inr ([], st)"
| "eval_items ((k, v) # kvs) st =
     bind_res (eval_expr k st) (\<lambda>(kv, st1).
     bind_res (eval_expr v st1) (\<lambda>(vv, st2).
     bind_res (eval_items kvs st2) (\<lambda>(rest, st3). Inr ((kv, vv) # rest, st3))))"
  by pat_completeness auto
termination
  by (relation "measure (\<lambda>x. case x of
        Inl (e, _) \<Rightarrow> size e
      | Inr (Inl (es, _)) \<Rightarrow> size_list size es
      | Inr (Inr (kvs, _)) \<Rightarrow> size_list (size_prod size size) kvs)") auto

fun exec_stmt :: "stmt \<Rightarrow> pystate \<Rightarrow> pyerror + pystate" where
  "exec_stmt (ExprStmt e) st = bind_res (eval_expr e st) (\<lambda>(_, st1). Inr st1)"
| "exec_stmt (Assign x e) st = bind_res (eval_expr e st) (\<lambda>(v, st1). Inr (store_name x v st1))"
| "exec_stmt (AnnAssign x ann e) st =
     bind_res (eval_expr e st) (\<lambda>(v, st1).
     bind_res (eval_expr ann (store_name x v st1)) (\<lambda>(t, st2).
     bind_res (load_name ''__annotations__'' st2) (\<lambda>anns.
     setitem anns (VStr x) t st2)))"

fun exec_stmts :: "stmt list \<Rightarrow> pystate \<Rightarrow> pyerror + pystate" where
  "exec_stmts [] st = Inr st"
| "exec_stmts (s # ss) st = bind_res (exec_stmt s st) (exec_stmts ss)"

fun is_annassign :: "stmt \<Rightarrow> bool" where
  "is_annassign (AnnAssign _ _ _) = True"
| "is_annassign _ = False"

definition setup_annotations :: "pystate \<Rightarrow> pystate" where
  "setup_annotations st =
     (case map_of (ns st) ''__annotations__'' of
        Some _ \<Rightarrow> st
      | None \<Rightarrow> let (a, st1) = alloc (ODict []) st in store_name ''__annotations__'' (VRef a) st1)"

text \<open>The precondition under which the annotated stores of a body cannot fail:
  \<^verbatim>\<open>__annotations__\<close> is unbound (\<^verbatim>\<open>SETUP_ANNOTATIONS\<close> creates it) or a dict.\<close>

definition annotations_ok :: "pystate \<Rightarrow> bool" where
  "annotations_ok st =
     (case map_of (ns st) ''__annotations__'' of
        None \<Rightarrow> True
      | Some anns \<Rightarrow> isinstance st anns (VClass DictType))"

definition exec_module :: "nat \<Rightarrow> stmt list \<Rightarrow> pystate \<Rightarrow> pyerror + pystate" where
  "exec_module optimize body st =
     (let st1 = (if list_ex is_annassign body then setup_annotations st else st) in
      case body of
        ExprStmt (Str doc) # rest \<Rightarrow>
          if optimize < 2 then exec_stmts rest (store_name ''__doc__'' (VStr doc) st1)
          else exec_stmts body st1
      | _ \<Rightarrow> exec_stmts body st1)"

definition new_module_ns :: "name \<Rightarrow> string \<Rightarrow> (name \<times> pyval) list" where
  "new_module_ns modname fname =
     [(''__name__'', VStr modname), (''__doc__'', VNone),
      (''__package__'', VStr modname), (''__file__'', VStr fname)]"

definition import_module :: "nat \<Rightarrow> stmt list \<Rightarrow> name \<Rightarrow> string \<Rightarrow> obj list \<Rightarrow> pyerror + pystate" where
  "import_module optimize body modname fname h =
     exec_module optimize body \<lparr>ns = new_module_ns modname fname, heap = h\<rparr>"

subsection \<open>Invariant and composition lemmas\<close>

lemma load_name_ok:
  "load_name x st = Inr v \<Longrightarrow> state_ok st \<Longrightarrow> val_ok (length (heap st)) v"
  by (auto simp: load_name_def builtins_def state_ok_def list_all_iff
           dest: map_of_SomeD split: option.splits if_splits)

lemma build_dict_ok:
  "build_dict d kvs st = Inr d' \<Longrightarrow> obj_ok n (ODict d) \<Longrightarrow>
   list_all (\<lambda>(k, v). val_ok n v) kvs \<Longrightarrow> obj_ok n (ODict d')"
proof (induction d kvs st rule: build_dict.induct)
  case (2 d k v kvs st)
  then show ?case
    by (auto simp: res_simps obj_ok_al_set split: if_splits simp del: obj_ok.simps)
qed simp

lemma eval_ok:
  "eval_expr e st = Inr (v, st') \<Longrightarrow> state_ok st \<Longrightarrow>
     state_ok st' \<and> val_ok (length (heap st')) v \<and> hext st st'"
  "eval_exprs es st = Inr (vs, st') \<Longrightarrow> state_ok st \<Longrightarrow>
     state_ok st' \<and> list_all (val_ok (length (heap st'))) vs \<and> hext st st'"
  "eval_items kvs st = Inr (ps, st') \<Longrightarrow> state_ok st \<Longrightarrow>
     state_ok st' \<and> list_all (\<lambda>(k, v). val_ok (length (heap st')) v) ps \<and> hext st st'"
proof (induction e st and es st and kvs st arbitrary: v st' and vs st' and ps st'
       rule: eval_expr_eval_exprs_eval_items.induct)
  case (3 x st)
  then show ?case by (auto simp: res_simps load_name_ok)
next
  case (4 items st)
  from "4.prems"(1) obtain kvs st1 d where
    items: "eval_items items st = Inr (kvs, st1)" and bd: "build_dict [] kvs st1 = Inr d"
    and res: "v = VRef (length (heap st1))" "st' = st1\<lparr>heap := heap st1 @ [ODict d]\<rparr>"
    by (auto simp: res_simps alloc_def split: prod.splits)
  from "4.IH" [OF items "4.prems"(2)] have ok1: "state_ok st1"
    "list_all (\<lambda>(k, v). val_ok (length (heap st1)) v) kvs" "hext st st1"
    by auto
  from build_dict_ok [OF bd _ ok1(2)] have "obj_ok (length (heap st1)) (ODict d)"
    by simp
  with ok1 res show ?case
    by (auto intro: state_ok_snoc hext_trans hext_snoc)
next
  case (5 es st)
  from "5.prems"(1) obtain vs st1 where
    es: "eval_exprs es st = Inr (vs, st1)"
    and res: "v = VRef (length (heap st1))" "st' = st1\<lparr>heap := heap st1 @ [OList vs]\<rparr>"
    by (auto simp: res_simps alloc_def split: prod.splits)
  from "5.IH" [OF es "5.prems"(2)] res show ?case
    by (auto intro: state_ok_snoc hext_trans hext_snoc)
next
  case (7 e es st)
  from "7.prems"(1) obtain v1 st1 vs1 where
    e: "eval_expr e st = Inr (v1, st1)" and es: "eval_exprs es st1 = Inr (vs1, st')"
    and res: "vs = v1 # vs1"
    by (auto simp: res_simps split: prod.splits)
  from "7.IH"(1) [OF e "7.prems"(2)] have ok1: "state_ok st1" "val_ok (length (heap st1)) v1" "hext st st1"
    by auto
  from "7.IH"(2) [OF es ok1(1)] ok1 res show ?case
    by (auto intro: hext_trans val_ok_hext)
next
  case (9 k v kvs st)
  from "9.prems"(1) obtain kv st1 vv st2 rest where
    k: "eval_expr k st = Inr (kv, st1)" and v: "eval_expr v st1 = Inr (vv, st2)"
    and kvs: "eval_items kvs st2 = Inr (rest, st')" and res: "ps = (kv, vv) # rest"
    by (auto simp: res_simps split: prod.splits)
  from "9.IH"(1) [OF k "9.prems"(2)] have ok1: "state_ok st1" "hext st st1"
    by auto
  from "9.IH"(2) [OF v ok1(1)] have ok2: "state_ok st2"
    "val_ok (length (heap st2)) vv" "hext st1 st2"
    by auto
  from "9.IH"(3) [OF kvs ok2(1)] ok1 ok2 res show ?case
    by (auto intro: hext_trans val_ok_hext)
qed auto

lemma exec_stmt_ok:
  assumes "exec_stmt s st = Inr st'" and "state_ok st"
  shows "state_ok st' \<and> hext st st'"
proof (cases s)
  case (ExprStmt e)
  with assms show ?thesis
    by (auto simp: res_simps dest: eval_ok(1) split: prod.splits)
next
  case (Assign x e)
  with assms obtain v st1 where e: "eval_expr e st = Inr (v, st1)" and st': "st' = store_name x v st1"
    by (auto simp: res_simps split: prod.splits)
  from eval_ok(1) [OF e assms(2)] st' show ?thesis
    by (auto intro: state_ok_store_name hext_trans hext_store_name)
next
  case (AnnAssign x ann e)
  with assms obtain v st1 t st2 anns where
    e: "eval_expr e st = Inr (v, st1)"
    and ann: "eval_expr ann (store_name x v st1) = Inr (t, st2)"
    and si: "setitem anns (VStr x) t st2 = Inr st'"
    by (auto simp: res_simps split: prod.splits)
  from eval_ok(1) [OF e assms(2)] have ok1: "state_ok (store_name x v st1)"
    "hext st (store_name x v st1)"
    by (auto intro: state_ok_store_name hext_trans hext_store_name)
  from eval_ok(1) [OF ann ok1(1)] have ok2: "state_ok st2" "val_ok (length (heap st2)) t"
    "hext (store_name x v st1) st2"
    by auto
  from state_ok_setitem [OF ok2(1,2) si] hext_setitem [OF si] ok1(2) ok2(3) show ?thesis
    by (auto intro: hext_trans)
qed

lemma exec_stmts_ok:
  "exec_stmts ss st = Inr st' \<Longrightarrow> state_ok st \<Longrightarrow> state_ok st' \<and> hext st st'"
proof (induction ss arbitrary: st)
  case (Cons s ss)
  from Cons.prems(1) obtain st1 where s: "exec_stmt s st = Inr st1" and ss: "exec_stmts ss st1 = Inr st'"
    by (auto simp: res_simps)
  from exec_stmt_ok [OF s Cons.prems(2)] Cons.IH [OF ss] show ?case
    by (auto intro: hext_trans)
qed simp

lemma exec_stmts_append:
  "exec_stmts (xs @ ys) st = bind_res (exec_stmts xs st) (exec_stmts ys)"
  by (induction xs arbitrary: st) (auto simp: bind_res_def split: sum.splits)

lemma setup_annotations_ok:
  assumes "state_ok st"
  shows "state_ok (setup_annotations st) \<and> hext st (setup_annotations st)"
proof (cases "map_of (ns st) ''__annotations__''")
  case None
  let ?st1 = "st\<lparr>heap := heap st @ [ODict []]\<rparr>"
  from assms have "state_ok ?st1"
    by (rule state_ok_snoc) simp
  then have "state_ok (store_name ''__annotations__'' (VRef (length (heap st))) ?st1)"
    by (rule state_ok_store_name) simp
  with None show ?thesis
    by (auto simp: setup_annotations_def alloc_def intro: hext_trans hext_snoc hext_store_name)
qed (simp_all add: setup_annotations_def assms)

lemma exec_module_ok:
  "exec_module optimize body st = Inr st' \<Longrightarrow> state_ok st \<Longrightarrow> state_ok st' \<and> hext st st'"
proof -
  define st1 where "st1 = (if list_ex is_annassign body then setup_annotations st else st)"
  assume run: "exec_module optimize body st = Inr st'" and ok: "state_ok st"
  from ok have ok1: "state_ok st1" "hext st st1"
    by (auto simp: st1_def setup_annotations_ok)
  then have ok2: "state_ok (store_name ''__doc__'' (VStr doc) st1)"
    "hext st (store_name ''__doc__'' (VStr doc) st1)" for doc
    by (auto intro: state_ok_store_name hext_trans hext_store_name)
  from run have "exec_stmts body st1 = Inr st' \<or>
      (\<exists>doc rest. exec_stmts rest (store_name ''__doc__'' (VStr doc) st1) = Inr st')"
    by (auto simp: exec_module_def st1_def Let_def split: list.splits stmt.splits expr.splits if_splits)
  with ok1 ok2 show ?thesis
    by (auto dest!: exec_stmts_ok intro: hext_trans)
qed

lemma setup_annotations_dict:
  assumes "annotations_ok st"
  shows "\<exists>a d. map_of (ns (setup_annotations st)) ''__annotations__'' = Some (VRef a) \<and>
           a < length (heap (setup_annotations st)) \<and> heap (setup_annotations st) ! a = ODict d"
  using assms
  by (auto simp: annotations_ok_def setup_annotations_def alloc_def store_name_def isinstance_def
           type_of_DictType split: option.splits)

lemma annotations_ok_hext:
  "annotations_ok st \<Longrightarrow> hext st st' \<Longrightarrow> ns st' = ns st \<Longrightarrow> annotations_ok st'"
  by (auto simp: annotations_ok_def isinstance_hext split: option.splits)

lemma new_module_ok:
  "list_all (obj_ok (length h)) h \<Longrightarrow> state_ok \<lparr>ns = new_module_ns modname fname, heap = h\<rparr>"
  by (simp add: state_ok_def new_module_ns_def)

end
