(* ===== verification/Py_Path.thy ===== *)
theory Py_Path
  imports Py_Prelude
begin

text \<open>
  The POSIX path functions the host applies to \<^verbatim>\<open>WEB_DIRECTORY\<close>
  (CPython's \<^verbatim>\<open>Lib/posixpath.py\<close>, 3.8 to 3.11; 3.12 moved
  \<^verbatim>\<open>normpath\<close> to C with the same results): \<^verbatim>\<open>str.split('/')\<close>
  (\<open>split_sep\<close>), \<^verbatim>\<open>'/'.join\<close> (\<open>join_sep\<close>), \<open>path_join\<close> for two
  arguments, \<open>normpath\<close> with its component loop \<open>norm_loop\<close>, and
  \<open>abspath\<close> with the working directory as a parameter.
  The lemmas are the round trip of split and join and the behaviour of the
  normalisation loop on plain components (neither empty, \<^verbatim>\<open>.\<close>,
  \<^verbatim>\<open>..\<close>, nor containing a slash), which \<open>normpath_abs_dir_dot\<close>
  combines: an absolute directory followed by \<^verbatim>\<open>./x\<close> normalises to its
  child \<open>x\<close>.
\<close>

definition sep :: char where "sep = CHR ''/''"

fun split_sep :: "string \<Rightarrow> string list" where
  "split_sep [] = ['''']"
| "split_sep (c # s) =
     (let ws = split_sep s in if c = sep then [] # ws else (c # hd ws) # tl ws)"

fun join_sep :: "string list \<Rightarrow> string" where
  "join_sep [] = []"
| "join_sep [w] = w"
| "join_sep (w # ws) = w @ [sep] @ join_sep ws"

fun norm_loop :: "nat \<Rightarrow> string list \<Rightarrow> string list \<Rightarrow> string list" where
  "norm_loop slashes new [] = new"
| "norm_loop slashes new (w # ws) =
     (if w = [] \<or> w = ''.'' then norm_loop slashes new ws
      else if w \<noteq> ''..'' \<or> (slashes = 0 \<and> new = []) \<or> (new \<noteq> [] \<and> last new = ''..'')
      then norm_loop slashes (new @ [w]) ws
      else if new \<noteq> [] then norm_loop slashes (butlast new) ws
      else norm_loop slashes new ws)"

definition initial_slashes :: "string \<Rightarrow> nat" where
  "initial_slashes p =
     (if take 1 p = [sep] then (if take 2 p = [sep, sep] \<and> take 3 p \<noteq> [sep, sep, sep] then 2 else 1)
      else 0)"

definition normpath :: "string \<Rightarrow> string" where
  "normpath p =
     (if p = [] then ''.''
      else
        let k = initial_slashes p;
            r = replicate k sep @ join_sep (norm_loop k [] (split_sep p))
        in if r = [] then ''.'' else r)"

definition path_join :: "string \<Rightarrow> string \<Rightarrow> string" where
  "path_join a b =
     (if take 1 b = [sep] then b
      else if a = [] \<or> last a = sep then a @ b
      else a @ [sep] @ b)"

definition abspath :: "string \<Rightarrow> string \<Rightarrow> string" where
  "abspath cwd p = normpath (if take 1 p = [sep] then p else path_join cwd p)"

text \<open>Plain components, and the absolute directory they spell.\<close>

definition plain_comp :: "string \<Rightarrow> bool" where
  "plain_comp c \<longleftrightarrow> c \<noteq> [] \<and> sep \<notin> set c \<and> c \<noteq> ''.'' \<and> c \<noteq> ''..''"

definition abs_dir :: "string list \<Rightarrow> string" where
  "abs_dir cs = sep # join_sep cs"

subsection \<open>Lemmas\<close>

lemma split_sep_ne [simp]: "split_sep s \<noteq> []"
  by (induction s) (auto simp: Let_def)

lemma split_sep_no_sep: "sep \<notin> set w \<Longrightarrow> split_sep w = [w]"
  by (induction w) (auto simp: Let_def)

lemma split_sep_append_sep:
  "sep \<notin> set w \<Longrightarrow> split_sep (w @ sep # s) = w # split_sep s"
  by (induction w) (auto simp: Let_def)

lemma join_sep_split_sep: "join_sep (split_sep s) = s"
proof (induction s)
  case (Cons c s)
  then show ?case
    by (cases "split_sep s" rule: join_sep.cases) (auto simp: Let_def)
qed simp

lemma split_sep_join_sep:
  "ws \<noteq> [] \<Longrightarrow> list_all (\<lambda>w. sep \<notin> set w) ws \<Longrightarrow> split_sep (join_sep ws) = ws"
  by (induction ws rule: join_sep.induct) (auto simp: split_sep_no_sep split_sep_append_sep)

lemma join_sep_append:
  "xs \<noteq> [] \<Longrightarrow> ys \<noteq> [] \<Longrightarrow> join_sep (xs @ ys) = join_sep xs @ sep # join_sep ys"
  by (induction xs rule: join_sep.induct) (auto simp: neq_Nil_conv)

lemma norm_loop_plain:
  "list_all plain_comp cs \<Longrightarrow> norm_loop k new (cs @ rest) = norm_loop k (new @ cs) rest"
  by (induction cs arbitrary: new) (auto simp: plain_comp_def)

lemma plain_comp_ends: "plain_comp c \<Longrightarrow> c \<noteq> [] \<and> hd c \<noteq> sep \<and> last c \<noteq> sep"
  unfolding plain_comp_def by (metis hd_in_set last_in_set)

lemma join_sep_plain_ends:
  "list_all plain_comp cs \<Longrightarrow> cs \<noteq> [] \<Longrightarrow>
   join_sep cs \<noteq> [] \<and> hd (join_sep cs) \<noteq> sep \<and> last (join_sep cs) \<noteq> sep"
  by (induction cs rule: join_sep.induct) (auto dest: plain_comp_ends)

lemma hd_join_sep:
  "ws \<noteq> [] \<Longrightarrow> hd ws \<noteq> [] \<Longrightarrow> hd (join_sep ws) = hd (hd ws)"
  by (induction ws rule: join_sep.induct) auto

lemma normpath_abs_dir_dot:
  assumes cs: "list_all plain_comp cs" and x: "plain_comp x"
  shows "normpath (path_join (abs_dir cs) (''.'' @ sep # x)) = abs_dir (cs @ [x])"
proof -
  let ?ws = "cs @ [''.'', x]"
  have dot: "join_sep [''.'', x] = ''.'' @ sep # x"
    by simp
  have joined: "path_join (abs_dir cs) (''.'' @ sep # x) = sep # join_sep ?ws"
  proof (cases "cs = []")
    case True
    then show ?thesis by (simp add: path_join_def abs_dir_def sep_def)
  next
    case False
    with cs have "join_sep cs \<noteq> [] \<and> last (join_sep cs) \<noteq> sep"
      by (simp add: join_sep_plain_ends)
    with False show ?thesis
      by (simp add: path_join_def abs_dir_def join_sep_append sep_def)
  qed
  have hd_ws: "hd (join_sep ?ws) \<noteq> sep"
    using cs x by (cases cs) (auto simp: hd_join_sep sep_def dest: plain_comp_ends)
  have ne: "join_sep ?ws \<noteq> []"
    using x by (cases "cs = []") (auto simp: join_sep_append)
  have slashes: "initial_slashes (sep # join_sep ?ws) = 1"
    using hd_ws ne by (cases "join_sep ?ws") (auto simp: initial_slashes_def)
  have nosep: "list_all (\<lambda>w. sep \<notin> set w) ?ws"
    using cs x by (auto simp: list_all_iff plain_comp_def sep_def)
  have split: "split_sep (join_sep ?ws) = ?ws"
    using nosep by (simp add: split_sep_join_sep)
  have loop: "norm_loop (Suc 0) [] ?ws = cs @ [x]"
    using cs x by (simp add: norm_loop_plain plain_comp_def)
  show ?thesis
    unfolding joined by (simp add: normpath_def slashes split loop abs_dir_def)
qed

end
