(* ===== verification/Host_Loader.thy ===== *)
theory Host_Loader
  imports Py_Exec Py_Path
begin

text \<open>
  The host side of the extension contract (spec, sections 3, 6 and 8).  The
  host application is not part of the repository; what it does with an
  extension module is modelled only through the interface the spec names:
  \<^item> \<open>getattr_mod\<close>: reading a module attribute (\<^verbatim>\<open>getattr(module, name)\<close>),
    \<^verbatim>\<open>AttributeError\<close> when the name is unbound;
  \<^item> \<open>dict_items\<close>: \<^verbatim>\<open>d.items()\<close> on the value read, in insertion order;
  \<^item> \<open>read_manifest\<close>: the host's view of the extension, the abstract
    \<open>manifest\<close> record of spec section 3 (asset path and the two registries);
  \<^item> \<open>import_star\<close>: \<^verbatim>\<open>from extension import *\<close>, which is governed by
    \<^verbatim>\<open>__all__\<close> (CPython's \<^verbatim>\<open>import_all_from\<close>): each item must be a
    \<^verbatim>\<open>str\<close> naming a bound attribute, and the names are bound into the
    importer's namespace one by one, so an error leaves the earlier ones bound;
  \<^item> \<open>resolve_web_dir\<close>: the directory the host serves the extension's
    front-end assets from, \<^verbatim>\<open>abspath(join(module_dir, WEB_DIRECTORY))\<close>.
  \<open>spec_manifest\<close> is the manifest the spec prescribes; its two registries
  are empty, so they trivially have the same key set (the spec's invariant).
\<close>

record manifest =
  web_asset_path :: string
  node_registry :: "(pyval \<times> pyval) list"
  display_name_registry :: "(pyval \<times> pyval) list"

definition spec_manifest :: manifest where
  "spec_manifest = \<lparr>web_asset_path = ''./js'', node_registry = [], display_name_registry = []\<rparr>"

definition getattr_mod :: "pystate \<Rightarrow> name \<Rightarrow> pyerror + pyval" where
  "getattr_mod st x = (case map_of (ns st) x of Some v \<Rightarrow> Inr v | None \<Rightarrow> Inl (AttributeError x))"

definition dict_items :: "pystate \<Rightarrow> pyval \<Rightarrow> pyerror + (pyval \<times> pyval) list" where
  "dict_items st v =
     (case v of
        VRef a \<Rightarrow>
          bind_res (deref st a) (\<lambda>ob. case ob of ODict d \<Rightarrow> Inr d | OList _ \<Rightarrow> Inl (AttributeError ''items''))
      | _ \<Rightarrow> Inl (AttributeError ''items''))"

definition read_manifest :: "pystate \<Rightarrow> pyerror + manifest" where
  "read_manifest st =
     bind_res (getattr_mod st ''WEB_DIRECTORY'') (\<lambda>w.
     case w of
       VStr p \<Rightarrow>
         bind_res (getattr_mod st ''NODE_CLASS_MAPPINGS'') (\<lambda>ncm.
         bind_res (dict_items st ncm) (\<lambda>nodes.
         bind_res (getattr_mod st ''NODE_DISPLAY_NAME_MAPPINGS'') (\<lambda>ndnm.
         bind_res (dict_items st ndnm) (\<lambda>names.
         Inr \<lparr>web_asset_path = p, node_registry = nodes, display_name_registry = names\<rparr>))))
     | _ \<Rightarrow> bind_res (type_of st w) (\<lambda>c. Inl (TypeError (NotPathLike c))))"

subsection \<open>\<^verbatim>\<open>from extension import *\<close>\<close>

definition sequence_items :: "pystate \<Rightarrow> pyval \<Rightarrow> pyerror + pyval list" where
  "sequence_items st v =
     (case v of
        VStr s \<Rightarrow> Inr (map (\<lambda>c. VStr [c]) s)
      | VRef a \<Rightarrow>
          bind_res (deref st a) (\<lambda>ob. case ob of
            OList vs \<Rightarrow> Inr vs
          | ODict _ \<Rightarrow> Inl (TypeError (NotSequence DictType)))
      | _ \<Rightarrow> bind_res (type_of st v) (\<lambda>c. Inl (TypeError (NotSequence c))))"

fun bind_star :: "pystate \<Rightarrow> pyval list \<Rightarrow> (name \<times> pyval) list \<Rightarrow>
    (pyerror \<times> (name \<times> pyval) list) + (name \<times> pyval) list" where
  "bind_star st [] imp = Inr imp"
| "bind_star st (VStr x # xs) imp =
     (case getattr_mod st x of
        Inl e \<Rightarrow> Inl (e, imp)
      | Inr v \<Rightarrow> bind_star st xs (al_set x v imp))"
| "bind_star st (v # xs) imp =
     (case type_of st v of
        Inl e \<Rightarrow> Inl (e, imp)
      | Inr c \<Rightarrow> Inl (TypeError (AllItemNotStr c), imp))"

definition import_star :: "pystate \<Rightarrow> (name \<times> pyval) list \<Rightarrow>
    (pyerror \<times> (name \<times> pyval) list) + (name \<times> pyval) list" where
  "import_star st imp =
     (case map_of (ns st) ''__all__'' of
        None \<Rightarrow> Inr (al_update imp (filter (\<lambda>(x, _). take 1 x \<noteq> ''_'') (ns st)))
      | Some allv \<Rightarrow>
          (case sequence_items st allv of
             Inl e \<Rightarrow> Inl (e, imp)
           | Inr names \<Rightarrow> bind_star st names imp))"

subsection \<open>The asset directory\<close>

definition resolve_web_dir :: "string \<Rightarrow> string \<Rightarrow> pystate \<Rightarrow> pyerror + string" where
  "resolve_web_dir cwd module_dir st =
     bind_res (read_manifest st) (\<lambda>m. Inr (abspath cwd (path_join module_dir (web_asset_path m))))"

subsection \<open>Lemmas\<close>

lemma getattr_mod_Some [simp]: "map_of (ns st) x = Some v \<Longrightarrow> getattr_mod st x = Inr v"
  by (simp add: getattr_mod_def)

lemma dict_items_ODict [simp]:
  "a < length (heap st) \<Longrightarrow> heap st ! a = ODict d \<Longrightarrow> dict_items st (VRef a) = Inr d"
  by (simp add: dict_items_def)

lemma read_manifest_Inr:
  "read_manifest st = Inr m \<longleftrightarrow>
     (\<exists>ncm ndnm.
        map_of (ns st) ''WEB_DIRECTORY'' = Some (VStr (web_asset_path m)) \<and>
        map_of (ns st) ''NODE_CLASS_MAPPINGS'' = Some ncm \<and>
        dict_items st ncm = Inr (node_registry m) \<and>
        map_of (ns st) ''NODE_DISPLAY_NAME_MAPPINGS'' = Some ndnm \<and>
        dict_items st ndnm = Inr (display_name_registry m))"
  by (auto simp: read_manifest_def getattr_mod_def res_simps bind_res_eq_Inl
           split: option.splits pyval.splits)

end
