(* ===== verification/Chat_Init.thy ===== *)
theory Chat_Init
  imports Host_Loader
begin

text \<open>
  The repository's only source file, \<^verbatim>\<open>src/__init__.py\<close>, as the module
  body CPython compiles from it: the module docstring (lines 1--5), then
  \<^verbatim>\<open>WEB_DIRECTORY = "./js"\<close> (line 8), the two annotated registry
  assignments \<^verbatim>\<open>NODE_CLASS_MAPPINGS: dict = {}\<close> and
  \<^verbatim>\<open>NODE_DISPLAY_NAME_MAPPINGS: dict = {}\<close> (lines 11--12) and the export
  list \<^verbatim>\<open>__all__\<close> (line 15).  One definition per statement, composed in
  source order by \<open>init_body\<close>.  \<open>import_init_body\<close> computes the
  complete effect of importing the package over any interpreter heap, and
  \<open>reload_run\<close> the effect of re-executing the body over any module state
  whose \<^verbatim>\<open>__annotations__\<close> is absent or a dict; the claims below are the
  spec's promises about the module, each derived from one of the two.
\<close>

definition newline :: string where "newline = [CHR 0x0A]"

definition module_docstring :: string where
  "module_docstring =
     newline @ ''ComfyUI AI Chat & Prompt Expansion Extension'' @ newline @ newline @
     ''This extension provides a sidebar chat interface for AI-powered prompt expansion and conversation.'' @
     newline"

definition WEB_DIRECTORY_stmt :: stmt where
  "WEB_DIRECTORY_stmt = Assign ''WEB_DIRECTORY'' (Str ''./js'')"

definition NODE_CLASS_MAPPINGS_stmt :: stmt where
  "NODE_CLASS_MAPPINGS_stmt = AnnAssign ''NODE_CLASS_MAPPINGS'' (Name ''dict'') (DictDisplay [])"

definition NODE_DISPLAY_NAME_MAPPINGS_stmt :: stmt where
  "NODE_DISPLAY_NAME_MAPPINGS_stmt =
     AnnAssign ''NODE_DISPLAY_NAME_MAPPINGS'' (Name ''dict'') (DictDisplay [])"

definition all_stmt :: stmt where
  "all_stmt =
     Assign ''__all__''
       (ListDisplay [Str ''NODE_CLASS_MAPPINGS'', Str ''NODE_DISPLAY_NAME_MAPPINGS'', Str ''WEB_DIRECTORY''])"

definition init_body :: "stmt list" where
  "init_body =
     [ExprStmt (Str module_docstring), WEB_DIRECTORY_stmt, NODE_CLASS_MAPPINGS_stmt,
      NODE_DISPLAY_NAME_MAPPINGS_stmt, all_stmt]"

subsection \<open>The import, computed\<close>

lemmas init_stmt_defs = WEB_DIRECTORY_stmt_def NODE_CLASS_MAPPINGS_stmt_def
  NODE_DISPLAY_NAME_MAPPINGS_stmt_def all_stmt_def

lemma import_init_body:
  "import_module optimize init_body modname fname h =
     Inr \<lparr>ns = [(''__name__'', VStr modname),
               (''__doc__'', if optimize < 2 then VStr module_docstring else VNone),
               (''__package__'', VStr modname), (''__file__'', VStr fname),
               (''__annotations__'', VRef (length h)),
               (''WEB_DIRECTORY'', VStr ''./js''),
               (''NODE_CLASS_MAPPINGS'', VRef (length h + 1)),
               (''NODE_DISPLAY_NAME_MAPPINGS'', VRef (length h + 2)),
               (''__all__'', VRef (length h + 3))],
          heap = h @ [ODict [(VStr ''NODE_CLASS_MAPPINGS'', VClass DictType),
                             (VStr ''NODE_DISPLAY_NAME_MAPPINGS'', VClass DictType)],
                      ODict [], ODict [],
                      OList [VStr ''NODE_CLASS_MAPPINGS'', VStr ''NODE_DISPLAY_NAME_MAPPINGS'',
                             VStr ''WEB_DIRECTORY'']]\<rparr>"
  by (simp add: import_module_def exec_module_def init_body_def init_stmt_defs
       new_module_ns_def setup_annotations_def alloc_def store_name_def load_name_def
       builtins_def deref_def setitem_def list_update_append nth_append Let_def)

subsection \<open>Helpers for re-execution\<close>

lemma init_assignments_run:
  assumes "map_of (ns st) ''__annotations__'' = Some (VRef a)"
    and "a < length (heap st)" and "heap st ! a = ODict d"
  shows "\<exists>st'. exec_stmts [WEB_DIRECTORY_stmt, NODE_CLASS_MAPPINGS_stmt,
                   NODE_DISPLAY_NAME_MAPPINGS_stmt, all_stmt] st = Inr st' \<and>
               read_manifest st' = Inr spec_manifest \<and> annotations_ok st'"
  using assms
  by (simp add: init_stmt_defs store_name_def load_name_def alloc_def setitem_def deref_def
       nth_append list_update_append read_manifest_Inr spec_manifest_def builtins_def
       annotations_ok_def isinstance_def split: option.split)

lemma reload_run:
  assumes "annotations_ok st"
  shows "\<exists>st'. exec_module optimize init_body st = Inr st' \<and> read_manifest st' = Inr spec_manifest \<and>
           annotations_ok st'"
proof -
  let ?st1 = "setup_annotations st"
  from setup_annotations_dict [OF assms] obtain a d where
    a: "map_of (ns ?st1) ''__annotations__'' = Some (VRef a)"
       "a < length (heap ?st1)" "heap ?st1 ! a = ODict d"
    by blast
  then have a': "map_of (ns (store_name ''__doc__'' doc ?st1)) ''__annotations__'' = Some (VRef a)"
    "a < length (heap (store_name ''__doc__'' doc ?st1))"
    "heap (store_name ''__doc__'' doc ?st1) ! a = ODict d" for doc
    by (simp_all add: store_name_def)
  have "exec_module optimize init_body st =
     (if optimize < 2
      then exec_stmts [WEB_DIRECTORY_stmt, NODE_CLASS_MAPPINGS_stmt, NODE_DISPLAY_NAME_MAPPINGS_stmt,
              all_stmt] (store_name ''__doc__'' (VStr module_docstring) ?st1)
      else exec_stmts [WEB_DIRECTORY_stmt, NODE_CLASS_MAPPINGS_stmt, NODE_DISPLAY_NAME_MAPPINGS_stmt,
              all_stmt] ?st1)"
    by (simp add: exec_module_def init_body_def NODE_CLASS_MAPPINGS_stmt_def)
  with init_assignments_run [OF a] init_assignments_run [OF a'] show ?thesis
    by simp
qed

subsection \<open>Properties of the module\<close>

text \<open>
  C1. Importing the package, over any interpreter heap and at any optimisation
  level, succeeds, and the host's reading of the module is exactly the manifest
  the spec prescribes: asset path \<^verbatim>\<open>./js\<close> and two empty registries.
\<close>

theorem import_refines_spec:
  "\<exists>st. import_module optimize init_body modname fname h = Inr st \<and>
        read_manifest st = Inr spec_manifest"
  by (simp add: import_init_body read_manifest_Inr spec_manifest_def nth_append)

text \<open>
  C2. Re-executing the body over the module's current namespace
  (\<^verbatim>\<open>importlib.reload\<close>) succeeds whenever \<^verbatim>\<open>__annotations__\<close> is unbound or
  a dict, and yields the prescribed manifest again, whatever the module held
  before: entries written into the old registries are not carried over.
\<close>

theorem reload_refines_spec:
  assumes "annotations_ok st"
  shows "\<exists>st'. exec_module optimize init_body st = Inr st' \<and> read_manifest st' = Inr spec_manifest"
  using reload_run [OF assms, of optimize] by blast

theorem reload_refines_spec_witness:
  "\<exists>st'. exec_module 0 init_body
      \<lparr>ns = [(''__annotations__'', VRef 0), (''NODE_CLASS_MAPPINGS'', VRef 1)],
       heap = [ODict [], ODict [(VStr ''ChatNode'', VNone)]]\<rparr> = Inr st' \<and>
    read_manifest st' = Inr spec_manifest"
  by (rule reload_refines_spec) (simp add: annotations_ok_def isinstance_def)

text \<open>
  C3. The two registries are two distinct dict objects, both created by the
  import: neither aliases the other nor any object that existed before.
\<close>

theorem registries_distinct_fresh:
  "\<exists>st a b. import_module optimize init_body modname fname h = Inr st \<and>
     map_of (ns st) ''NODE_CLASS_MAPPINGS'' = Some (VRef a) \<and>
     map_of (ns st) ''NODE_DISPLAY_NAME_MAPPINGS'' = Some (VRef b) \<and>
     a \<noteq> b \<and> length h \<le> a \<and> length h \<le> b"
  by (simp add: import_init_body)

text \<open>
  C4. A node class registered into \<^verbatim>\<open>NODE_CLASS_MAPPINGS\<close> after the import
  (\<^verbatim>\<open>NODE_CLASS_MAPPINGS[k] = v\<close> with a hashable key) shows up in that
  registry only: the display-name registry stays empty.
\<close>

theorem ncm_write_keeps_display_names:
  assumes "hashable k"
  shows "\<exists>st ncm st'. import_module optimize init_body modname fname h = Inr st \<and>
     map_of (ns st) ''NODE_CLASS_MAPPINGS'' = Some ncm \<and>
     setitem ncm k v st = Inr st' \<and>
     read_manifest st' =
       Inr \<lparr>web_asset_path = ''./js'', node_registry = [(k, v)], display_name_registry = []\<rparr>"
  using assms
  by (simp add: import_init_body read_manifest_Inr setitem_def deref_def nth_append
       list_update_append)

theorem ncm_write_keeps_display_names_witness:
  "hashable (VStr ''ChatNode'') \<and>
   (\<exists>st ncm st'. import_module 0 init_body ''comfyui-chat-assistant'' ''/x/__init__.py'' [] = Inr st \<and>
     map_of (ns st) ''NODE_CLASS_MAPPINGS'' = Some ncm \<and>
     setitem ncm (VStr ''ChatNode'') VNone st = Inr st' \<and>
     read_manifest st' =
       Inr \<lparr>web_asset_path = ''./js'', node_registry = [(VStr ''ChatNode'', VNone)],
            display_name_registry = []\<rparr>)"
  using ncm_write_keeps_display_names [of "VStr ''ChatNode''" 0 "''comfyui-chat-assistant''"
      "''/x/__init__.py''" "[]" VNone]
  by simp

text \<open>
  C5. \<^verbatim>\<open>from extension import *\<close> succeeds and binds exactly the three names
  of \<^verbatim>\<open>__all__\<close>, in its order, to the module's own objects; nothing else
  of the module (its docstring, \<^verbatim>\<open>__name__\<close>, \<^verbatim>\<open>__annotations__\<close>) leaks
  into the importer.
\<close>

theorem star_import_exports:
  "\<exists>st ncm ndnm. import_module optimize init_body modname fname h = Inr st \<and>
     map_of (ns st) ''NODE_CLASS_MAPPINGS'' = Some ncm \<and>
     map_of (ns st) ''NODE_DISPLAY_NAME_MAPPINGS'' = Some ndnm \<and>
     import_star st imp =
       Inr (al_update imp [(''NODE_CLASS_MAPPINGS'', ncm), (''NODE_DISPLAY_NAME_MAPPINGS'', ndnm),
                           (''WEB_DIRECTORY'', VStr ''./js'')])"
  by (simp add: import_init_body import_star_def sequence_items_def deref_def nth_append)

text \<open>
  C6. The type annotations hold at run time: the module's
  \<^verbatim>\<open>__annotations__\<close> is a non-empty dict, and every entry maps the name of a
  bound module attribute to a class of which the attribute's value is an
  instance (\<^verbatim>\<open>isinstance(NODE_CLASS_MAPPINGS, dict)\<close> and so on).
\<close>

theorem annotations_hold:
  "\<exists>st anns d. import_module optimize init_body modname fname h = Inr st \<and>
     map_of (ns st) ''__annotations__'' = Some (VRef anns) \<and>
     anns < length (heap st) \<and> heap st ! anns = ODict d \<and> d \<noteq> [] \<and>
     list_all (\<lambda>(k, cls). \<exists>x v. k = VStr x \<and> map_of (ns st) x = Some v \<and> isinstance st v cls) d"
  by (simp add: import_init_body isinstance_def deref_def nth_append)

text \<open>
  C8. Re-executing the body when \<^verbatim>\<open>__annotations__\<close> is bound to a
  \<^verbatim>\<open>str\<close> raises \<^verbatim>\<open>TypeError: 'str' object does not support item
  assignment\<close> at the first annotated assignment.
\<close>

theorem reload_rejects_str_annotations:
  assumes "map_of (ns st) ''__annotations__'' = Some (VStr s)"
  shows "exec_module optimize init_body st = Inl (TypeError (NoItemAssignment StrType))"
  using assms
  by (simp add: exec_module_def init_body_def init_stmt_defs setup_annotations_def store_name_def
       load_name_def alloc_def setitem_def builtins_def split: option.split)

theorem reload_rejects_str_annotations_witness:
  "map_of [(''__annotations__'', VStr ''x'')] ''__annotations__'' = Some (VStr ''x'') \<and>
   exec_module 0 init_body \<lparr>ns = [(''__annotations__'', VStr ''x'')], heap = []\<rparr> =
     Inl (TypeError (NoItemAssignment StrType))"
  using reload_rejects_str_annotations [of "\<lparr>ns = [(''__annotations__'', VStr ''x'')], heap = []\<rparr>"
      "''x''" 0]
  by simp

text \<open>
  C9. The module's \<^verbatim>\<open>__doc__\<close> is the docstring of lines 1--5, except under
  \<^verbatim>\<open>python -OO\<close>, where it stays \<^verbatim>\<open>None\<close>.
\<close>

theorem doc_attribute:
  "\<exists>st. import_module optimize init_body modname fname h = Inr st \<and>
     map_of (ns st) ''__doc__'' = Some (if optimize < 2 then VStr module_docstring else VNone)"
  by (simp add: import_init_body)


end
