(* ===== verification/Module_Lifecycle.thy ===== *)
theory Module_Lifecycle
  imports Chat_Init
begin

text \<open>
  The extension module over the life of the host process, as a step relation
  on interpreter states (spec section 3: the manifest is built when the host
  loads the extension and only read afterwards; section 8: loading it again
  gives the same values).  A state is reachable when it results from
  \<^item> \<open>import\<close>: importing the package over any well-formed heap, at any
    optimisation level;
  \<^item> \<open>reload\<close>: re-executing the body over the module's current state
    (\<^verbatim>\<open>importlib.reload\<close>), at any optimisation level;
  \<^item> \<open>foreign_alloc\<close>: any other code of the process allocating a new object
    on the shared heap.
  The host's reads change nothing and need no step.  \<open>lifecycle_inv\<close> is the
  invariant: the heap invariant, \<^verbatim>\<open>__annotations__\<close> bound to a dict, and
  the manifest the spec prescribes.  It holds after the import and every step
  keeps it (rule induction).
\<close>

inductive lifecycle :: "pystate \<Rightarrow> bool" where
  import: "list_all (obj_ok (length h)) h \<Longrightarrow>
           import_module optimize init_body modname fname h = Inr st \<Longrightarrow> lifecycle st"
| reload: "lifecycle st \<Longrightarrow> exec_module optimize init_body st = Inr st' \<Longrightarrow> lifecycle st'"
| foreign_alloc: "lifecycle st \<Longrightarrow> obj_ok (length (heap st)) ob \<Longrightarrow>
           lifecycle (st\<lparr>heap := heap st @ [ob]\<rparr>)"

definition lifecycle_inv :: "pystate \<Rightarrow> bool" where
  "lifecycle_inv st \<longleftrightarrow>
     state_ok st \<and> annotations_ok st \<and> read_manifest st = Inr spec_manifest"

subsection \<open>Each step keeps the invariant\<close>

lemma dict_items_snoc:
  "dict_items st v = Inr d \<Longrightarrow> dict_items (st\<lparr>heap := heap st @ [ob]\<rparr>) v = Inr d"
  by (auto simp: dict_items_def deref_def nth_append split: pyval.splits if_splits)

lemma read_manifest_snoc:
  "read_manifest st = Inr m \<Longrightarrow> read_manifest (st\<lparr>heap := heap st @ [ob]\<rparr>) = Inr m"
  by (auto simp: read_manifest_Inr dict_items_snoc)

lemma lifecycle_inv_import:
  assumes "list_all (obj_ok (length h)) h"
    and "import_module optimize init_body modname fname h = Inr st"
  shows "lifecycle_inv st"
proof -
  from assms(1) have "state_ok \<lparr>ns = new_module_ns modname fname, heap = h\<rparr>"
    by (rule new_module_ok)
  with assms(2) have "state_ok st"
    by (auto simp: import_module_def dest: exec_module_ok)
  with assms(2) show ?thesis
    by (auto simp: import_init_body lifecycle_inv_def read_manifest_Inr spec_manifest_def
        annotations_ok_def isinstance_def deref_def nth_append)
qed

lemma lifecycle_inv_reload:
  assumes "lifecycle_inv st" and "exec_module optimize init_body st = Inr st'"
  shows "lifecycle_inv st'"
proof -
  from assms(1) have ok: "state_ok st" and ann: "annotations_ok st"
    by (simp_all add: lifecycle_inv_def)
  from reload_run [OF ann, of optimize] assms(2)
  have "read_manifest st' = Inr spec_manifest" and "annotations_ok st'"
    by auto
  moreover from exec_module_ok [OF assms(2) ok] have "state_ok st'"
    by simp
  ultimately show ?thesis
    by (simp add: lifecycle_inv_def)
qed

lemma lifecycle_inv_foreign_alloc:
  assumes "lifecycle_inv st" and "obj_ok (length (heap st)) ob"
  shows "lifecycle_inv (st\<lparr>heap := heap st @ [ob]\<rparr>)"
  using assms
  by (auto simp: lifecycle_inv_def intro: state_ok_snoc read_manifest_snoc
           elim: annotations_ok_hext [OF _ hext_snoc])

lemma lifecycle_inv_reachable: "lifecycle st \<Longrightarrow> lifecycle_inv st"
proof (induction rule: lifecycle.induct)
  case (import h optimize modname fname st)
  then show ?case by (rule lifecycle_inv_import)
next
  case (reload st optimize st')
  then show ?case by (blast intro: lifecycle_inv_reload)
next
  case (foreign_alloc st ob)
  then show ?case by (blast intro: lifecycle_inv_foreign_alloc)
qed

subsection \<open>Properties of the lifecycle\<close>

text \<open>
  C10. In every state the process can reach (an import over a well-formed heap,
  then any sequence of reloads at any optimisation level and of allocations by
  other code), the host reads the spec's manifest and the heap invariant holds.
\<close>

theorem lifecycle_manifest_stable:
  assumes "lifecycle st"
  shows "read_manifest st = Inr spec_manifest \<and> state_ok st"
  using lifecycle_inv_reachable [OF assms] by (simp add: lifecycle_inv_def)

theorem lifecycle_manifest_stable_witness:
  "\<exists>st st'. import_module 0 init_body ''comfyui-chat-assistant'' ''/x/__init__.py'' [] = Inr st \<and>
     exec_module 2 init_body st = Inr st' \<and> lifecycle st' \<and>
     read_manifest st' = Inr spec_manifest \<and> state_ok st'"
proof -
  obtain st where imp: "import_module 0 init_body ''comfyui-chat-assistant'' ''/x/__init__.py'' [] = Inr st"
    using import_init_body by blast
  then have l: "lifecycle st"
    by (rule lifecycle.import [rotated]) simp
  have "annotations_ok st"
    using imp by (auto simp: import_init_body annotations_ok_def isinstance_def deref_def)
  then obtain st' where re: "exec_module 2 init_body st = Inr st'"
    using reload_run by blast
  with l have l': "lifecycle st'"
    by (rule lifecycle.reload)
  with imp re show ?thesis
    using lifecycle_manifest_stable [OF l'] by blast
qed

end
