(* ===== verification/Spec2Isabelle.thy ===== *)
theory Spec2Isabelle
  imports Module_Lifecycle
begin

text \<open>
  \<^bold>\<open>A verification library for comfyui-chat-assistant.\<close>

  \<^emph>\<open>The program.\<close> The repository is a plugin descriptor for a node-based
  host application (ComfyUI).  Its only source file, \<^verbatim>\<open>src/__init__.py\<close>,
  is a package \<^verbatim>\<open>__init__\<close> module whose body binds three names the host
  reads at start-up: \<^verbatim>\<open>WEB_DIRECTORY\<close> (the directory of front-end assets,
  \<^verbatim>\<open>"./js"\<close>), and the registries \<^verbatim>\<open>NODE_CLASS_MAPPINGS\<close> and
  \<^verbatim>\<open>NODE_DISPLAY_NAME_MAPPINGS\<close> (both empty dicts, annotated
  \<^verbatim>\<open>dict\<close>), plus the export list \<^verbatim>\<open>__all__\<close> and a docstring.  There is
  no algorithm; what can go wrong is how the body executes in the interpreter
  (allocation, aliasing, annotations, re-execution) and how the host consumes it
  (attribute reads, star import, path resolution, registry merge).  The
  development therefore models the body as CPython runs it, and the host
  through the interface the spec describes.

  \<^emph>\<open>Theories.\<close>
  \<^item> \<open>Py_Prelude\<close>: names, addresses, the result type \<open>error + value\<close>
    with \<open>bind_res\<close>, and insertion-ordered dicts as association lists
    (\<open>al_set\<close> is \<^verbatim>\<open>d[k] = v\<close>, \<open>al_update\<close> is \<^verbatim>\<open>dict.update\<close>).
  \<^item> \<open>Py_Objects\<close>: values, heap objects (dict, list), exceptions, the
    interpreter state (module namespace and heap), allocation, \<open>type_of\<close>
    and \<open>isinstance\<close>, \<^verbatim>\<open>STORE_SUBSCR\<close> (\<open>setitem\<close>), \<^verbatim>\<open>STORE_NAME\<close>;
    the heap invariant \<open>state_ok\<close> and heap extension \<open>hext\<close>, each
    operation shown to keep both.
  \<^item> \<open>Py_Exec\<close>: expressions and statements of the body, their evaluation
    (\<^verbatim>\<open>LOAD_NAME\<close>, dict and list displays), annotated assignment, module
    execution as \<^verbatim>\<open>compiler_body\<close> compiles it (\<^verbatim>\<open>SETUP_ANNOTATIONS\<close>,
    docstring, \<^verbatim>\<open>-OO\<close>), and \<open>import_module\<close>; evaluation and execution
    keep \<open>state_ok\<close> and extend the heap.
  \<^item> \<open>Py_Path\<close>: \<^verbatim>\<open>posixpath\<close>'s \<open>path_join\<close>, \<open>normpath\<close> and
    \<open>abspath\<close> over \<^verbatim>\<open>str.split\<close>/\<^verbatim>\<open>str.join\<close>, with the split/join
    round trip and the normalisation of \<^verbatim>\<open>dir/./x\<close>.
  \<^item> \<open>Host_Loader\<close>: the host's contract (spec sections 3, 6, 8):
    \<open>read_manifest\<close> into the abstract \<open>manifest\<close> record,
    \<open>spec_manifest\<close> (what the spec prescribes), \<open>import_star\<close>
    (CPython's \<^verbatim>\<open>import_all_from\<close>) and \<open>resolve_web_dir\<close>.
  \<^item> \<open>Chat_Init\<close>: the source file itself, one definition per statement
    (\<open>module_docstring\<close> lines 1--5, \<open>WEB_DIRECTORY_stmt\<close> line 8,
    \<open>NODE_CLASS_MAPPINGS_stmt\<close> line 11, \<open>NODE_DISPLAY_NAME_MAPPINGS_stmt\<close>
    line 12, \<open>all_stmt\<close> line 15) composed in order by \<open>init_body\<close>;
    \<open>import_init_body\<close> computes the whole import symbolically over any
    heap, and the claims C1--C6, C8 and C9 follow from it.
  \<^item> \<open>Module_Lifecycle\<close>: the module over the life of the host process
    as an inductive step relation \<open>lifecycle\<close> (import over a well-formed
    heap, reload at any optimisation level, allocation by other code) with the
    invariant \<open>lifecycle_inv\<close> proved for every reachable state by rule
    induction (C10).
  \<^item> This theory: the claim that joins the module with the host's path
    handling (C7).

  \<^emph>\<open>What is shown.\<close> Refinement: the host's reading of the imported module
  is the spec's manifest (C1), also after re-execution over any prior module
  state whose \<^verbatim>\<open>__annotations__\<close> is absent or a dict (C2).  Safety: the
  registries are distinct fresh objects (C3), so a registration into one leaves
  the other empty (C4); the asset directory is the \<^verbatim>\<open>js\<close> child of the
  extension directory (C7).  Functional: \<^verbatim>\<open>from extension import *\<close>
  binds exactly the three exported names (C5); \<^verbatim>\<open>__doc__\<close> is the
  docstring except under \<^verbatim>\<open>-OO\<close> (C9).  Type: the annotations
  \<^verbatim>\<open>: dict\<close> hold at run time (C6).  Error: re-execution with a
  \<^verbatim>\<open>str\<close> \<^verbatim>\<open>__annotations__\<close> raises \<^verbatim>\<open>TypeError\<close> (C8).
  Invariant (lifecycle): every reachable state shows the spec's manifest and a
  well-formed heap (C10); the invariant had to be strengthened with
  \<open>annotations_ok\<close>, since a reload fails exactly when
  \<^verbatim>\<open>__annotations__\<close> is not a dict (C8).  The generic facts these
  rest on (evaluation and execution keep \<open>state_ok\<close> and only extend the
  heap, \<open>exec_stmts_ok\<close>, \<open>exec_module_ok\<close>) are lemmas of
  \<open>Py_Objects\<close> and \<open>Py_Exec\<close>, not claims about this module.

  \<^emph>\<open>Bounds and termination.\<close> Every function is total: structural recursion,
  and a size measure for the mutually recursive evaluator of nested displays.
  No loop of the program can run forever, so no fuel is used.

  \<^emph>\<open>Plan for later work.\<close> (1) Python 3.14, where annotations are
  evaluated lazily through \<^verbatim>\<open>__annotate__\<close>: a second \<open>exec_module\<close>
  for that version, under which C8's \<^verbatim>\<open>TypeError\<close> disappears and C6
  holds through the lazy mapping; (2) other code mutating the registries through
  the references that C5 exports, as further \<open>lifecycle\<close> steps, with the
  spec's key-set invariant kept by paired registrations only; (3) the error
  paths of \<^verbatim>\<open>from extension import *\<close> (partial bindings before an
  \<^verbatim>\<open>AttributeError\<close>) and the submodule import it attempts first.

  \<^emph>\<open>Not modelled.\<close> The front-end assets under \<^verbatim>\<open>js/\<close> (not supplied,
  opaque to the manifest); the host's own code beyond the interface above
  (module discovery, the \<^verbatim>\<open>isdir\<close> check on the asset directory, HTTP
  serving, the merge of the registries into its node palette); import-system attributes that the body never reads
  (\<^verbatim>\<open>__loader__\<close>, \<^verbatim>\<open>__spec__\<close>, \<^verbatim>\<open>__path__\<close>, \<^verbatim>\<open>__cached__\<close>,
  \<^verbatim>\<open>__builtins__\<close>); garbage collection; Python 3.14's lazily evaluated
  annotations (the model follows 3.8--3.13, where \<^verbatim>\<open>x: T = v\<close> stores
  \<open>T\<close> in \<^verbatim>\<open>__annotations__\<close> at once); the attempt of
  \<^verbatim>\<open>from package import *\<close> to import a submodule for a name of
  \<^verbatim>\<open>__all__\<close> that is unbound, which never happens for this module.
\<close>

text \<open>
  C7. The host resolves \<^verbatim>\<open>WEB_DIRECTORY\<close> against the extension's
  directory to the child directory \<^verbatim>\<open>js\<close> of that directory, for every
  absolute extension directory made of plain components and every working
  directory: the assets served never lie outside the extension.
\<close>

theorem web_dir_inside_extension:
  assumes "list_all plain_comp cs"
  shows "\<exists>st. import_module optimize init_body modname fname h = Inr st \<and>
           resolve_web_dir cwd (abs_dir cs) st = Inr (abs_dir (cs @ [''js'']))"
proof -
  have js: "plain_comp ''js''" and dot: "''./js'' = ''.'' @ sep # ''js''"
    by (simp_all add: plain_comp_def sep_def)
  have "abspath cwd (path_join (abs_dir cs) ''./js'') = normpath (path_join (abs_dir cs) ''./js'')"
    by (simp add: abspath_def path_join_def abs_dir_def sep_def)
  also have "\<dots> = abs_dir (cs @ [''js''])"
    unfolding dot by (rule normpath_abs_dir_dot [OF assms js])
  finally show ?thesis
    by (simp add: import_init_body resolve_web_dir_def read_manifest_def nth_append)
qed

theorem web_dir_inside_extension_witness:
  "list_all plain_comp [''home'', ''user'', ''ComfyUI'', ''custom_nodes'', ''comfyui-chat-assistant''] \<and>
   (\<exists>st. import_module 0 init_body ''comfyui-chat-assistant''
           ''/home/user/ComfyUI/custom_nodes/comfyui-chat-assistant/__init__.py'' [] = Inr st \<and>
         resolve_web_dir ''/home/user/ComfyUI''
           ''/home/user/ComfyUI/custom_nodes/comfyui-chat-assistant'' st =
           Inr ''/home/user/ComfyUI/custom_nodes/comfyui-chat-assistant/js'')"
proof -
  have p: "list_all plain_comp [''home'', ''user'', ''ComfyUI'', ''custom_nodes'', ''comfyui-chat-assistant'']"
    by (simp add: plain_comp_def sep_def)
  have d: "abs_dir [''home'', ''user'', ''ComfyUI'', ''custom_nodes'', ''comfyui-chat-assistant''] =
      ''/home/user/ComfyUI/custom_nodes/comfyui-chat-assistant''"
    and d': "abs_dir ([''home'', ''user'', ''ComfyUI'', ''custom_nodes'', ''comfyui-chat-assistant''] @ [''js'']) =
      ''/home/user/ComfyUI/custom_nodes/comfyui-chat-assistant/js''"
    by (simp_all add: abs_dir_def sep_def)
  from web_dir_inside_extension [OF p, of 0 "''comfyui-chat-assistant''"
      "''/home/user/ComfyUI/custom_nodes/comfyui-chat-assistant/__init__.py''" "[]" "''/home/user/ComfyUI''"]
  show ?thesis
    unfolding d d' using p by blast
qed

end
